theory Spec2Isabelle
  imports Complex_Main
begin

section \<open>JavaScript values\<close>

text \<open>
  The script works on what \<^verbatim>\<open>JSON.parse\<close> returns and on the objects it builds from
  that. A string is its sequence of UTF-16 code units, so that \<^verbatim>\<open>\s\<close>, \<^verbatim>\<open>trim\<close> and the
  character U+2026 mean what they mean in the script. An object is the list of its own
  properties in enumeration order, and nothing more: the model has no prototype. In
  JavaScript an object inherits the members of \<^verbatim>\<open>Object.prototype\<close>, which \<^verbatim>\<open>obj[key]\<close>
  finds when the object has no own property of that name, an own property named
  \<^verbatim>\<open>hasOwnProperty\<close> hides the method that the script calls, an assignment to
  \<^verbatim>\<open>__proto__\<close> goes to the setter of the prototype, and keys that are canonical array
  indices are enumerated before all others. So the functions below are the script on
  objects whose keys are ordinary, in the sense of \<open>ordinary_key\<close> further down: no
  key, and no part of a key between dots, names a member of \<^verbatim>\<open>Object.prototype\<close> or is
  written as a decimal number. Every property that is stated of the script carries that
  hypothesis. A number is a real; the script only copies numbers and tests them for zero.
\<close>

type_synonym jsstring = "nat list"

datatype jsval =
    JUndefined
  | JNull
  | JBool bool
  | JNum real
  | JStr jsstring
  | JArr "jsval list"
  | JObj "(jsstring \<times> jsval) list"

type_synonym props = "(jsstring \<times> jsval) list"

definition js :: "string \<Rightarrow> jsstring" where
  "js s = map of_char s"


text \<open>
  \<^verbatim>\<open>obj[key] = value\<close> for an ordinary key: an existing property keeps its place, a new
  one goes last. (A new key that is a canonical array index would go before the other
  keys, and \<^verbatim>\<open>__proto__\<close> would not become a property at all.)
\<close>

fun obj_set :: "props \<Rightarrow> jsstring \<Rightarrow> jsval \<Rightarrow> props" where
  "obj_set [] k v = [(k, v)]"
| "obj_set ((k', v') # r) k v = (if k' = k then (k, v) # r else (k', v') # obj_set r k v)"

text \<open>\<^verbatim>\<open>Object.assign(target, source)\<close>\<close>

fun object_assign :: "props \<Rightarrow> props \<Rightarrow> props" where
  "object_assign target [] = target"
| "object_assign target ((k, v) # src) = object_assign (obj_set target k v) src"

text \<open>\<^verbatim>\<open>key in obj\<close> for an object that inherits nothing but \<^verbatim>\<open>Object.prototype\<close>.\<close>

definition has_prop :: "props \<Rightarrow> jsstring \<Rightarrow> bool" where
  "has_prop kvs k = (k \<in> set (map fst kvs))"

text \<open>The decimal digits of an index, as template literals and property names print it.\<close>

function decimal :: "nat \<Rightarrow> jsstring" where
  "decimal n = (if n < 10 then [48 + n] else decimal (n div 10) @ [48 + n mod 10])"
  by pat_completeness auto
termination
  by (relation "measure id") auto

declare decimal.simps [simp del]


section \<open>Flatten / unflatten\<close>

text \<open>
  \<^verbatim>\<open>typeof obj === 'object' && obj !== null && 'translation' in obj && 'sourceHash' in obj\<close>.
  An array parsed from JSON has neither property.
\<close>

definition isTranslationEntry :: "jsval \<Rightarrow> bool" where
  "isTranslationEntry obj =
     (case obj of
        JObj kvs \<Rightarrow> has_prop kvs (js ''translation'') \<and> has_prop kvs (js ''sourceHash'')
      | _ \<Rightarrow> False)"

definition newKey_of :: "jsstring \<Rightarrow> jsstring \<Rightarrow> jsstring" where
  "newKey_of prefix key = (if prefix \<noteq> [] then prefix @ [46] @ key else key)"

text \<open>
  The loop of \<^verbatim>\<open>flattenObject\<close> over the properties still to visit, with the
  \<^verbatim>\<open>result\<close> object built so far. Only a plain object that is not entry-shaped is
  recursed into. The test \<^verbatim>\<open>obj.hasOwnProperty(key)\<close> holds of every key that
  \<^verbatim>\<open>for ... in\<close> gives for an object parsed from JSON, and is left out; on an object
  with an own property named \<^verbatim>\<open>hasOwnProperty\<close> the call would throw, which is one of
  the keys that are not ordinary.
\<close>

fun flattenFields :: "props \<Rightarrow> jsstring \<Rightarrow> props \<Rightarrow> props" where
  "flattenFields [] prefix result = result"
| "flattenFields ((key, val) # rest) prefix result =
     flattenFields rest prefix
       (case val of
          JObj kvs \<Rightarrow>
            if isTranslationEntry val then obj_set result (newKey_of prefix key) val
            else object_assign result (flattenFields kvs (newKey_of prefix key) [])
        | _ \<Rightarrow> obj_set result (newKey_of prefix key) val)"



text \<open>\<^verbatim>\<open>key.split('.')\<close>: never empty, \<^verbatim>\<open>''.split('.')\<close> is \<^verbatim>\<open>['']\<close>.\<close>

fun split_dot :: "jsstring \<Rightarrow> jsstring list" where
  "split_dot [] = [[]]"
| "split_dot (c # cs) =
     (if c = 46 then [] # split_dot cs
      else (case split_dot cs of [] \<Rightarrow> [[c]] | w # ws \<Rightarrow> (c # w) # ws))"





section \<open>Strings and the regular expressions of the script\<close>

text \<open>\<^verbatim>\<open>\s\<close> and \<^verbatim>\<open>trim\<close>: ECMAScript's WhiteSpace and LineTerminator code units.\<close>

definition is_space :: "nat \<Rightarrow> bool" where
  "is_space c =
     (c = 9 \<or> c = 10 \<or> c = 11 \<or> c = 12 \<or> c = 13 \<or> c = 32 \<or> c = 160 \<or> c = 5760
      \<or> (8192 \<le> c \<and> c \<le> 8202) \<or> c = 8232 \<or> c = 8233 \<or> c = 8239 \<or> c = 8287
      \<or> c = 12288 \<or> c = 65279)"

text \<open>\<^verbatim>\<open>\w\<close>\<close>

definition is_word :: "nat \<Rightarrow> bool" where
  "is_word c = ((48 \<le> c \<and> c \<le> 57) \<or> (65 \<le> c \<and> c \<le> 90) \<or> c = 95 \<or> (97 \<le> c \<and> c \<le> 122))"

definition trim :: "jsstring \<Rightarrow> jsstring" where
  "trim s = rev (dropWhile is_space (rev (dropWhile is_space s)))"

text \<open>
  Case mapping on the ASCII letters. \<^verbatim>\<open>toLowerCase\<close>, \<^verbatim>\<open>toUpperCase\<close> and the
  \<^verbatim>\<open>i\<close> flag also map letters beyond ASCII; the model is exact for markers made of
  ASCII characters, which is what \<^verbatim>\<open>extractPlaceholders\<close> makes. The script compares
  lower-cased language codes with ASCII literals only; the one character beyond ASCII
  whose lower case is an ASCII letter is the Kelvin sign U+212A, which \<open>lower_unit\<close>
  maps as JavaScript does, so that these comparisons are exact.
\<close>

definition upper_unit :: "nat \<Rightarrow> nat" where
  "upper_unit c = (if 97 \<le> c \<and> c \<le> 122 then c - 32 else c)"

definition lower_unit :: "nat \<Rightarrow> nat" where
  "lower_unit c = (if 65 \<le> c \<and> c \<le> 90 then c + 32 else if c = 8490 then 107 else c)"



text \<open>A literal matches at the start of the text; with the \<^verbatim>\<open>i\<close> flag, up to case.\<close>

definition starts_with :: "jsstring \<Rightarrow> jsstring \<Rightarrow> bool" where
  "starts_with s pat = (take (length pat) s = pat)"

definition starts_with_ci :: "jsstring \<Rightarrow> jsstring \<Rightarrow> bool" where
  "starts_with_ci s pat = (map upper_unit (take (length pat) s) = map upper_unit pat)"


section \<open>Placeholder codec\<close>

text \<open>
  The regular expression \<^verbatim>\<open>/\{\{?\w+\}?\}/\<close> tried at the start of a text; the result
  is the length of the match. The quantifiers are greedy: the second opening brace is
  taken when it is there, the word run is maximal, and two closing braces are taken
  when they are there. Giving back part of the word run or the second opening brace
  never helps, since what follows then is a word character or a brace where the
  expression needs the other.
\<close>

definition match_placeholder :: "jsstring \<Rightarrow> nat option" where
  "match_placeholder s =
     (case s of
        [] \<Rightarrow> None
      | c # r \<Rightarrow>
          if c \<noteq> 123 then None
          else
            let opening = (if starts_with r [123] then 2 else 1);
                w = takeWhile is_word (drop opening s);
                r2 = dropWhile is_word (drop opening s)
            in if w = [] then None
               else if take 2 r2 = [125, 125] then Some (opening + length w + 2)
               else if take 1 r2 = [125] then Some (opening + length w + 1)
               else None)"


definition marker_of :: "nat \<Rightarrow> jsstring" where
  "marker_of index = js ''XPLACEHOLDERX'' @ decimal index @ js ''XPLACEHOLDERX''"










text \<open>\<^verbatim>\<open>str.replace(/\s+/g, ' ')\<close>\<close>

function collapse_spaces :: "jsstring \<Rightarrow> jsstring" where
  "collapse_spaces [] = []"
| "collapse_spaces (c # cs) =
     (if is_space c then 32 # collapse_spaces (dropWhile is_space cs)
      else c # collapse_spaces cs)"
  by pat_completeness auto
termination
  by (relation "measure length") (auto simp: le_imp_less_Suc length_dropWhile_le)


section \<open>Punctuation normalization\<close>

text \<open>
  \<^verbatim>\<open>str.replace(regex, '')\<close> for a regular expression anchored at the end of the text:
  the text is cut at the first position from which the rest matches.
\<close>

fun cut_where :: "(jsstring \<Rightarrow> bool) \<Rightarrow> jsstring \<Rightarrow> jsstring" where
  "cut_where P [] = []"
| "cut_where P (c # cs) = (if P (c # cs) then [] else c # cut_where P cs)"

text \<open>\<^verbatim>\<open>/\.\.\.\s*$/\<close>, \<^verbatim>\<open>/\<dots>\s*$/\<close> with U+2026, and \<^verbatim>\<open>/[.!?]\s*$/\<close>, at the start of a text.\<close>

definition dots_then_space :: "jsstring \<Rightarrow> bool" where
  "dots_then_space t = (starts_with t [46, 46, 46] \<and> list_all is_space (drop 3 t))"

definition ellipsis_then_space :: "jsstring \<Rightarrow> bool" where
  "ellipsis_then_space t = (starts_with t [8230] \<and> list_all is_space (drop 1 t))"

definition mark_then_space :: "jsstring \<Rightarrow> bool" where
  "mark_then_space t =
     ((starts_with t [46] \<or> starts_with t [33] \<or> starts_with t [63])
      \<and> list_all is_space (drop 1 t))"

definition ends_with :: "jsstring \<Rightarrow> jsstring \<Rightarrow> bool" where
  "ends_with s pat = starts_with (rev s) (rev pat)"

text \<open>\<^verbatim>\<open>translatedText.match(/\s*$/)?.[0] || ''\<close>\<close>

definition trailing_space :: "jsstring \<Rightarrow> jsstring" where
  "trailing_space s = rev (takeWhile is_space (rev s))"

text \<open>
  The test on the trimmed source text. \<^verbatim>\<open>sourceTrimmed[sourceTrimmed.length - 1]\<close> is
  \<^verbatim>\<open>undefined\<close> for the empty string, which equals none of the three marks.
\<close>

definition sourceEndsWithPunctuation :: "jsstring \<Rightarrow> bool" where
  "sourceEndsWithPunctuation sourceTrimmed =
     (ends_with sourceTrimmed [46] \<or> ends_with sourceTrimmed [63] \<or> ends_with sourceTrimmed [33]
      \<or> ends_with sourceTrimmed [46, 46, 46] \<or> ends_with sourceTrimmed [8230])"

definition normalizeTranslationPunctuation :: "jsstring \<Rightarrow> jsstring \<Rightarrow> jsstring" where
  "normalizeTranslationPunctuation sourceText translatedText =
     (if trim sourceText = [] \<or> trim translatedText = [] then translatedText
      else if \<not> sourceEndsWithPunctuation (trim sourceText) then
        cut_where mark_then_space
          (cut_where ellipsis_then_space (cut_where dots_then_space (trim translatedText)))
        @ trailing_space translatedText
      else translatedText)"

section \<open>Translation providers\<close>









section \<open>Override store\<close>


definition TranslationEntry :: "jsval \<Rightarrow> jsstring \<Rightarrow> jsval" where
  "TranslationEntry translation sourceHash =
     JObj [(js ''translation'', translation), (js ''sourceHash'', JStr sourceHash)]"




section \<open>Orchestrator\<close>












section \<open>The keys that the model covers\<close>







section \<open>Notions used to state the properties\<close>

text \<open>
  The three kinds of value that the specification calls terminal leaves of
  \<^verbatim>\<open>flattenObject\<close>: an array, a primitive (not an object, or \<^verbatim>\<open>null\<close>), an object that
  has both a \<^verbatim>\<open>translation\<close> and a \<^verbatim>\<open>sourceHash\<close> property.
\<close>

definition is_array :: "jsval \<Rightarrow> bool" where
  "is_array x = (case x of JArr _ \<Rightarrow> True | _ \<Rightarrow> False)"

definition is_primitive :: "jsval \<Rightarrow> bool" where
  "is_primitive x = (case x of JArr _ \<Rightarrow> False | JObj _ \<Rightarrow> False | _ \<Rightarrow> True)"

definition both_properties :: "jsval \<Rightarrow> bool" where
  "both_properties x =
     (case x of
        JObj kvs \<Rightarrow> map_of kvs (js ''translation'') \<noteq> None \<and> map_of kvs (js ''sourceHash'') \<noteq> None
      | _ \<Rightarrow> False)"

definition terminal_leaf :: "jsval \<Rightarrow> bool" where
  "terminal_leaf x = (is_array x \<or> is_primitive x \<or> both_properties x)"


text \<open>
  Two key paths that do not meet: neither is the beginning of the other. A key stands
  alone among the keys of a flat object when its path meets the path of no other key,
  as \<^verbatim>\<open>a.b\<close> meets \<^verbatim>\<open>a\<close> and \<^verbatim>\<open>a.b.c\<close> but not \<^verbatim>\<open>a.c\<close>.
\<close>

definition apart :: "jsstring list \<Rightarrow> jsstring list \<Rightarrow> bool" where
  "apart p q = (take (length p) q \<noteq> p \<and> take (length q) p \<noteq> q)"


text \<open>
  A text without a trailing occurrence of one of the given patterns and the whitespace
  after it, described from the end of the text rather than by a search from its start.
\<close>

definition without_trailing :: "jsstring list \<Rightarrow> jsstring \<Rightarrow> jsstring" where
  "without_trailing pats s =
     (let body = take (length s - length (trailing_space s)) s in
      case find (ends_with body) pats of
        None \<Rightarrow> s
      | Some p \<Rightarrow> take (length body - length p) body)"

text \<open>
  The shape shared by the three regular expressions of the punctuation step: one of
  several literals of the same length, then whitespace up to the end of the text.
\<close>

definition tail_pattern :: "jsstring list \<Rightarrow> nat \<Rightarrow> jsstring \<Rightarrow> bool" where
  "tail_pattern pats n t = (list_ex (starts_with t) pats \<and> list_all is_space (drop n t))"







section \<open>Notions used for the round trip\<close>

text \<open>
  A tree for which the round trip is stated: within every object the keys are pairwise
  different and none contains a dot, and an object that is recursed into (a plain object
  that is not entry-shaped) is not empty and does not sit under the empty key at the top
  level. The flag says whether the fields are those of the top level.
\<close>

fun plain_fields :: "bool \<Rightarrow> props \<Rightarrow> bool" where
  "plain_fields outer [] = True"
| "plain_fields outer ((k, v) # rest) =
     (46 \<notin> set k \<and> k \<notin> fst ` set rest
      \<and> (case v of
            JObj c \<Rightarrow> isTranslationEntry v \<or> (c \<noteq> [] \<and> \<not> (outer \<and> k = []) \<and> plain_fields False c)
          | _ \<Rightarrow> True)
      \<and> plain_fields outer rest)"

text \<open>The leaves of a tree with their key paths, depth first, as \<^verbatim>\<open>flattenObject\<close> meets them.\<close>

fun paths :: "props \<Rightarrow> (jsstring list \<times> jsval) list" where
  "paths [] = []"
| "paths ((k, v) # rest) =
     (case v of
        JObj c \<Rightarrow>
          if both_properties v then [([k], v)]
          else map (\<lambda>(ps, x). (k # ps, x)) (paths c)
      | _ \<Rightarrow> [([k], v)])
     @ paths rest"





definition split_keys :: "props \<Rightarrow> (jsstring list \<times> jsval) list" where
  "split_keys entries = map (\<lambda>(key, v). (split_dot key, v)) entries"


text \<open>
  A partly built result that fits a tree: every property it has is a property of the
  tree, and where the tree has an object that is recursed into, the result has an object
  that fits it.
\<close>

fun fits :: "props \<Rightarrow> props \<Rightarrow> bool" where
  "fits [] kvs = True"
| "fits ((k, x) # result) kvs =
     ((case map_of kvs k of
         None \<Rightarrow> False
       | Some v \<Rightarrow>
           (case v of
              JObj c \<Rightarrow>
                isTranslationEntry v \<or> (case x of JObj r \<Rightarrow> fits r c | _ \<Rightarrow> False)
            | _ \<Rightarrow> True))
      \<and> fits result kvs)"


section \<open>Notions used for the placeholder codec\<close>

text \<open>
  A text with every placeholder set between two spaces, and whitespace normalization as
  \<^verbatim>\<open>restorePlaceholders\<close> ends with: runs of whitespace collapsed to one space, the
  ends trimmed.
\<close>

fun pad_placeholders :: "jsstring \<Rightarrow> jsstring" where
  "pad_placeholders [] = []"
| "pad_placeholders (c # cs) =
     (case match_placeholder (c # cs) of
        None \<Rightarrow> c # pad_placeholders cs
      | Some n \<Rightarrow> [32] @ take n (c # cs) @ [32] @ pad_placeholders (drop (n - 1) cs))"

definition normalize_whitespace :: "jsstring \<Rightarrow> jsstring" where
  "normalize_whitespace s = trim (collapse_spaces s)"

text \<open>A literal occurs somewhere in a text, up to case; a text that holds no sentinel stem.\<close>

definition contains_ci :: "jsstring \<Rightarrow> jsstring \<Rightarrow> bool" where
  "contains_ci s pat = list_ex (\<lambda>i. starts_with_ci (drop i s) pat) [0 ..< Suc (length s)]"

definition sentinel_free :: "jsstring \<Rightarrow> bool" where
  "sentinel_free s = (\<not> contains_ci s (js ''XPLACEHOLDERX''))"

text \<open>The text that \<^verbatim>\<open>extractPlaceholders\<close> is to produce, markers numbered from an index.\<close>

fun mark :: "nat \<Rightarrow> jsstring \<Rightarrow> jsstring" where
  "mark i [] = []"
| "mark i (c # cs) =
     (case match_placeholder (c # cs) of
        None \<Rightarrow> c # mark i cs
      | Some n \<Rightarrow> [32] @ marker_of i @ [32] @ mark (Suc i) (drop (n - 1) cs))"

text \<open>The words of a text: its maximal runs without whitespace; and their joining by one space.\<close>

function words_of :: "jsstring \<Rightarrow> jsstring list" where
  "words_of [] = []"
| "words_of (c # cs) =
     (if is_space c then words_of cs
      else (c # takeWhile (\<lambda>x. \<not> is_space x) cs) # words_of (dropWhile (\<lambda>x. \<not> is_space x) cs))"
  by pat_completeness auto
termination
  by (relation "measure length") (auto simp: le_imp_less_Suc length_dropWhile_le)

fun unwords :: "jsstring list \<Rightarrow> jsstring" where
  "unwords [] = []"
| "unwords [w] = w"
| "unwords (w # ws) = w @ [32] @ unwords ws"

text \<open>A word with the marker of a placeholder replaced by the placeholder.\<close>

definition unmark :: "jsstring list \<Rightarrow> jsstring \<Rightarrow> jsstring" where
  "unmark placeholders w =
     (case map_of (zip (map marker_of [0 ..< length placeholders]) placeholders) w of
        None \<Rightarrow> w
      | Some p \<Rightarrow> p)"

section \<open>Example inputs\<close>










section \<open>Properties of flattenObject\<close>

lemma flattenFields_append:
  "flattenFields (xs @ ys) p r = flattenFields ys p (flattenFields xs p r)"
  by (induction xs p r rule: flattenFields.induct) simp_all



section \<open>Properties of the punctuation step\<close>

lemma starts_with_append_self [simp]: "starts_with (p @ w) p"
  by (simp add: starts_with_def)

lemma starts_with_decomp: "starts_with t p \<Longrightarrow> t = p @ drop (length p) t"
  unfolding starts_with_def by (metis append_take_drop_id)

lemma ends_with_iff: "ends_with s p \<longleftrightarrow> (\<exists>a. s = a @ p)"
proof
  assume "ends_with s p"
  then have "take (length p) (rev s) = rev p" by (simp add: ends_with_def starts_with_def)
  then have "rev s = rev p @ drop (length p) (rev s)" by (metis append_take_drop_id)
  then have "s = rev (drop (length p) (rev s)) @ p" by (metis rev_append rev_rev_ident)
  then show "\<exists>a. s = a @ p" ..
next
  assume "\<exists>a. s = a @ p"
  then show "ends_with s p" by (auto simp: ends_with_def starts_with_def)
qed

lemma trailing_space_all: "list_all is_space (trailing_space s)"
  unfolding trailing_space_def list_all_iff by (auto dest: set_takeWhileD)

lemma trailing_space_split: "s = take (length s - length (trailing_space s)) s @ trailing_space s"
proof -
  have "rev s = takeWhile is_space (rev s) @ dropWhile is_space (rev s)" by simp
  then have "s = rev (dropWhile is_space (rev s)) @ trailing_space s"
    unfolding trailing_space_def by (metis rev_append rev_rev_ident)
  moreover from this have "take (length s - length (trailing_space s)) s = rev (dropWhile is_space (rev s))"
    by (metis append_eq_conv_conj length_append add_diff_cancel_right')
  ultimately show ?thesis by simp
qed

lemma trailing_space_suffix:
  assumes "list_all is_space w" "p \<noteq> []" "\<not> is_space (last p)"
  shows "trailing_space (a @ p @ w) = w"
proof -
  have r: "rev (a @ p @ w) = rev w @ (last p # rev (butlast p) @ rev a)"
    using assms(2) by (metis append_butlast_last_id rev_append append.assoc rev_eq_Cons_iff rev_rev_ident append_Cons append_Nil)
  have "\<And>x. x \<in> set (rev w) \<Longrightarrow> is_space x" using assms(1) by (simp add: list_all_iff)
  then have t: "takeWhile is_space (rev w @ (last p # rev (butlast p) @ rev a))
     = rev w @ takeWhile is_space (last p # rev (butlast p) @ rev a)"
    by (rule takeWhile_append2)
  show ?thesis unfolding trailing_space_def r t using assms(3) by simp
qed

lemma cut_where_suffix:
  assumes "\<forall>q\<in>set pats. length q = n \<and> q \<noteq> [] \<and> \<not> is_space (last q)"
    and "p \<in> set pats" and "list_all is_space w"
  shows "cut_where (tail_pattern pats n) (a @ p @ w) = a"
proof (induction a)
  case Nil
  from assms have "p \<noteq> []" "length p = n" by auto
  then obtain c cs where pw: "p @ w = c # cs" by (cases p) auto
  have "tail_pattern pats n (p @ w)"
    using assms \<open>length p = n\<close> by (auto simp: tail_pattern_def list_ex_iff intro!: bexI[of _ p])
  then show ?case using pw by simp
next
  case (Cons c a)
  have "\<not> tail_pattern pats n (c # a @ p @ w)"
  proof
    assume "tail_pattern pats n (c # a @ p @ w)"
    then have sp: "list_all is_space (drop n (c # a @ p @ w))" by (simp add: tail_pattern_def)
    from assms have "p \<noteq> []" "length p = n" "\<not> is_space (last p)" by auto
    have "drop n (((c # a) @ p) @ w) = drop n ((c # a) @ p) @ drop (n - length ((c # a) @ p)) w"
      by (rule drop_append)
    then have "drop n (c # a @ p @ w) = drop n ((c # a) @ p) @ w"
      using \<open>length p = n\<close> by simp
    moreover have "drop n ((c # a) @ p) \<noteq> []" using \<open>length p = n\<close> by simp
    moreover have "last (drop n ((c # a) @ p)) = last p"
      using \<open>length p = n\<close> \<open>p \<noteq> []\<close> by (simp add: last_drop)
    ultimately have "is_space (last p)"
      using sp by (metis last_in_set list_all_append list_all_iff)
    with \<open>\<not> is_space (last p)\<close> show False by simp
  qed
  with Cons show ?case by simp
qed

lemma cut_where_no_match:
  assumes "\<forall>q\<in>set pats. length q = n"
    and "\<And>a p w. p \<in> set pats \<Longrightarrow> s = a @ p @ w \<Longrightarrow> \<not> list_all is_space w"
  shows "cut_where (tail_pattern pats n) s = s"
  using assms(2)
proof (induction s)
  case Nil
  show ?case by simp
next
  case (Cons c cs)
  have "\<not> tail_pattern pats n (c # cs)"
  proof
    assume tp: "tail_pattern pats n (c # cs)"
    then obtain p where p: "p \<in> set pats" "starts_with (c # cs) p"
      by (auto simp: tail_pattern_def list_ex_iff)
    then have "c # cs = [] @ p @ drop n (c # cs)"
      using starts_with_decomp assms(1) by fastforce
    with Cons.prems p(1) tp show False by (metis tail_pattern_def)
  qed
  moreover have "cut_where (tail_pattern pats n) cs = cs"
  proof (rule Cons.IH)
    fix a p w assume "p \<in> set pats" "cs = a @ p @ w"
    then show "\<not> list_all is_space w" using Cons.prems[of p "c # a" w] by simp
  qed
  ultimately show ?case by simp
qed

lemma cut_where_without_trailing:
  assumes "\<forall>q\<in>set pats. length q = n \<and> q \<noteq> [] \<and> \<not> is_space (last q)"
  shows "cut_where (tail_pattern pats n) s = without_trailing pats s"
proof -
  define body where "body = take (length s - length (trailing_space s)) s"
  have s: "s = body @ trailing_space s" unfolding body_def by (rule trailing_space_split)
  show ?thesis
  proof (cases "find (ends_with body) pats")
    case None
    have "cut_where (tail_pattern pats n) s = s"
    proof (rule cut_where_no_match)
      show "\<forall>q\<in>set pats. length q = n" using assms by simp
    next
      fix a p w assume p: "p \<in> set pats" and eq: "s = a @ p @ w"
      show "\<not> list_all is_space w"
      proof
        assume w: "list_all is_space w"
        from assms p have "p \<noteq> []" "\<not> is_space (last p)" by auto
        with w have "trailing_space s = w" using eq trailing_space_suffix by simp
        with s eq have "body = a @ p" by (metis append.assoc append_same_eq)
        then have "ends_with body p" by (auto simp: ends_with_iff)
        with None p show False by (simp add: find_None_iff)
      qed
    qed
    with None show ?thesis by (simp add: without_trailing_def body_def[symmetric])
  next
    case (Some p)
    then have p: "p \<in> set pats" "ends_with body p" by (auto simp: find_Some_iff)
    then obtain a where a: "body = a @ p" by (auto simp: ends_with_iff)
    have "cut_where (tail_pattern pats n) (a @ p @ trailing_space s) = a"
      using assms p(1) trailing_space_all by (rule cut_where_suffix)
    moreover have "s = a @ p @ trailing_space s" using s a by simp
    ultimately have "cut_where (tail_pattern pats n) s = a" by simp
    moreover have "take (length body - length p) body = a" using a by simp
    ultimately show ?thesis using Some by (simp add: without_trailing_def body_def[symmetric])
  qed
qed

lemma dots_then_space_tail: "dots_then_space = tail_pattern [[46, 46, 46]] 3"
  by (rule ext) (simp add: dots_then_space_def tail_pattern_def)

lemma ellipsis_then_space_tail: "ellipsis_then_space = tail_pattern [[8230]] 1"
  by (rule ext) (simp add: ellipsis_then_space_def tail_pattern_def)

lemma mark_then_space_tail: "mark_then_space = tail_pattern [[46], [33], [63]] 1"
  by (rule ext) (simp add: mark_then_space_def tail_pattern_def)

lemma cut_where_dots: "cut_where dots_then_space s = without_trailing [[46, 46, 46]] s"
  unfolding dots_then_space_tail
  by (rule cut_where_without_trailing) (simp add: is_space_def)

lemma cut_where_ellipsis: "cut_where ellipsis_then_space s = without_trailing [[8230]] s"
  unfolding ellipsis_then_space_tail
  by (rule cut_where_without_trailing) (simp add: is_space_def)

lemma cut_where_mark: "cut_where mark_then_space s = without_trailing [[46], [33], [63]] s"
  unfolding mark_then_space_tail
  by (rule cut_where_without_trailing) (simp add: is_space_def)

lemma trim_Nil_all_space:
  assumes "trim t = []"
  shows "\<forall>x\<in>set t. is_space x"
proof -
  from assms have "\<forall>x\<in>set (dropWhile is_space t). is_space x"
    by (simp add: trim_def dropWhile_eq_Nil_conv)
  then have "dropWhile is_space t = []"
    by (metis hd_dropWhile hd_in_set)
  then show ?thesis by (simp add: dropWhile_eq_Nil_conv)
qed

lemma trailing_space_blank: "trim t = [] \<Longrightarrow> trailing_space t = t"
  using trim_Nil_all_space[of t] by (simp add: trailing_space_def takeWhile_eq_all_conv[THEN iffD2])

lemmas text_defs =
  js_def trim_def is_space_def is_word_def ends_with_def starts_with_def starts_with_ci_def
  upper_unit_def lower_unit_def trailing_space_def

text \<open>
  C6, as amended. When the source text is not blank and its trimmed form does not end in
  a full stop, an exclamation mark, a question mark, three full stops or U+2026, the
  result is the trimmed translation without a trailing \<^verbatim>\<open>...\<close>, then without a trailing
  U+2026, then without one trailing full stop, exclamation mark or question mark (each
  with the whitespace after it), followed by the trailing whitespace of the translation as
  it was given. For a blank source text the translation comes back as it is. For the
  source \<^verbatim>\<open>Tamam\<close> and the translation \<^verbatim>\<open>Okay.\<close> the result is \<^verbatim>\<open>Okay\<close>.
\<close>

theorem normalizeTranslationPunctuation_strips:
  "(trim sourceText \<noteq> [] \<and> \<not> sourceEndsWithPunctuation (trim sourceText) \<longrightarrow>
      normalizeTranslationPunctuation sourceText translatedText =
        without_trailing [[46], [33], [63]]
          (without_trailing [[8230]] (without_trailing [[46, 46, 46]] (trim translatedText)))
        @ trailing_space translatedText)
   \<and> (trim sourceText = [] \<longrightarrow>
        normalizeTranslationPunctuation sourceText translatedText = translatedText)
   \<and> normalizeTranslationPunctuation (js ''Tamam'') (js ''Okay.'') = js ''Okay''"
proof (intro conjI impI)
  assume src: "trim sourceText \<noteq> [] \<and> \<not> sourceEndsWithPunctuation (trim sourceText)"
  show "normalizeTranslationPunctuation sourceText translatedText =
        without_trailing [[46], [33], [63]]
          (without_trailing [[8230]] (without_trailing [[46, 46, 46]] (trim translatedText)))
        @ trailing_space translatedText"
  proof (cases "trim translatedText = []")
    case True
    then have "without_trailing [[46, 46, 46]] (trim translatedText) = []"
      by (simp add: without_trailing_def ends_with_def starts_with_def trailing_space_def)
    moreover have "without_trailing [[8230]] [] = []" "without_trailing [[46], [33], [63]] [] = []"
      by (simp_all add: without_trailing_def ends_with_def starts_with_def trailing_space_def)
    ultimately show ?thesis
      using True by (simp add: normalizeTranslationPunctuation_def trailing_space_blank)
  next
    case False
    with src show ?thesis
      by (simp add: normalizeTranslationPunctuation_def cut_where_dots cut_where_ellipsis
            cut_where_mark)
  qed
next
  assume "trim sourceText = []"
  then show "normalizeTranslationPunctuation sourceText translatedText = translatedText"
    by (simp add: normalizeTranslationPunctuation_def)
next
  show "normalizeTranslationPunctuation (js ''Tamam'') (js ''Okay.'') = js ''Okay''"
    by (simp add: normalizeTranslationPunctuation_def sourceEndsWithPunctuation_def
          mark_then_space_def ellipsis_then_space_def dots_then_space_def text_defs)
qed

theorem normalizeTranslationPunctuation_strips_witness:
  "trim (js ''Evet'') \<noteq> []
   \<and> \<not> sourceEndsWithPunctuation (trim (js ''Evet''))
   \<and> normalizeTranslationPunctuation (js ''Evet'') (js '' Yes!... '') = js ''Yes ''
   \<and> trim (js '' '') = []
   \<and> normalizeTranslationPunctuation (js '' '') (js ''Yes!'') = js ''Yes!''"
  using normalizeTranslationPunctuation_strips [of "js ''Evet''" "js '' Yes!... ''"]
        normalizeTranslationPunctuation_strips [of "js '' ''" "js ''Yes!''"]
  by (simp add: sourceEndsWithPunctuation_def without_trailing_def text_defs)

text \<open>
  The empty source text ends in none of the marks, and the full stop of the translation
  stays.
\<close>

theorem normalizeTranslationPunctuation_blank_source_counterexample:
  "\<not> sourceEndsWithPunctuation (trim (js ''''))
   \<and> normalizeTranslationPunctuation (js '''') (js ''Okay.'') = js ''Okay.''
   \<and> js ''Okay.'' \<noteq> js ''Okay''"
  by (simp add: normalizeTranslationPunctuation_def sourceEndsWithPunctuation_def text_defs)

section \<open>Properties of objects\<close>











section \<open>Properties of the orchestrator's loops\<close>


































section \<open>The keys of the flat object\<close>


section \<open>The round trip of flattenObject and unflattenObject\<close>

subsection \<open>Splitting keys\<close>

lemma split_dot_not_Nil [simp]: "split_dot s \<noteq> []"
  by (induction s) (auto split: list.splits)






subsection \<open>flattenObject in terms of key paths\<close>


lemma plain_fields_weaken: "plain_fields outer kvs \<Longrightarrow> plain_fields False kvs"
  by (induction outer kvs rule: plain_fields.induct) (auto split: jsval.splits)

lemma split_keys_append [simp]: "split_keys (a @ b) = split_keys a @ split_keys b"
  by (simp add: split_keys_def)



lemma paths_head: "(ps, x) \<in> set (paths kvs) \<Longrightarrow> hd ps \<in> fst ` set kvs"
  by (induction kvs arbitrary: ps x rule: paths.induct) (force split: jsval.splits if_splits)+





subsection \<open>unflattenObject in terms of key paths\<close>
















section \<open>unflattenObject succeeds on the keys of a plain tree\<close>

lemma fits_append: "fits (a @ b) kvs \<longleftrightarrow> fits a kvs \<and> fits b kvs"
  by (induction a kvs rule: fits.induct) auto









section \<open>The flat object and the file\<close>





section \<open>What unflattenObject leaves at the path of a key\<close>



lemma apart_single: "p \<noteq> [] \<Longrightarrow> \<not> apart (a # p) [a]" "q \<noteq> [] \<Longrightarrow> \<not> apart [a] (a # q)"
  by (simp_all add: apart_def)





lemma apart_irrefl: "\<not> apart p p"
  by (simp add: apart_def)




section \<open>What the file holds for a key\<close>




section \<open>The content-hash cache\<close>




section \<open>The override store\<close>




section \<open>Failure of the whole batch\<close>




section \<open>What flattenObject returns\<close>












section \<open>The values of the flat object\<close>



lemma isTranslationEntry_TranslationEntry [simp]: "isTranslationEntry (TranslationEntry a b)"
  by (simp add: isTranslationEntry_def TranslationEntry_def has_prop_def js_def)







lemma terminal_leaf_undefined [simp]: "terminal_leaf JUndefined"
  by (simp add: terminal_leaf_def is_primitive_def)


section \<open>Joining what was split\<close>




section \<open>A tree cut down to the leaves that are kept\<close>







section \<open>A flat object selected from a flattened tree, unflattened and flattened again\<close>





section \<open>The values of the flat object of a language\<close>






section \<open>Every key of the source in the file\<close>




end
